theory Spec2Isabelle
  imports Complex_Main "HOL-Library.Sublist"
begin

section \<open>Python strings\<close>

text \<open>
  A Python \<open>str\<close> is the list of its code points, the integers \<open>ord\<close> gives
  (0 to 0x10FFFF). \<open>asc\<close> reads a literal of ASCII characters as such a list.
\<close>

type_synonym pystr = "int list"

definition asc :: "string \<Rightarrow> pystr" where
  "asc s = map of_char s"

text \<open>
  The code points \<open>str.isspace\<close> accepts, which are the ones \<open>str.strip()\<close> removes: the
  ASCII controls 0x09-0x0D and 0x1C-0x1F, the space, U+0085, U+00A0, U+1680,
  U+2000-U+200A, U+2028, U+2029, U+202F, U+205F and U+3000.
\<close>

definition is_space :: "int \<Rightarrow> bool" where
  "is_space c \<longleftrightarrow>
     (0x09 \<le> c \<and> c \<le> 0x0D) \<or> (0x1C \<le> c \<and> c \<le> 0x20) \<or> c = 0x85 \<or> c = 0xA0 \<or>
     c = 0x1680 \<or> (0x2000 \<le> c \<and> c \<le> 0x200A) \<or> c = 0x2028 \<or> c = 0x2029 \<or>
     c = 0x202F \<or> c = 0x205F \<or> c = 0x3000"

text \<open>The case of an ASCII code point: only the letters change.\<close>

definition ascii_upper :: "int \<Rightarrow> int" where
  "ascii_upper c = (if 97 \<le> c \<and> c \<le> 122 then c - 32 else c)"

definition ascii_lower :: "int \<Rightarrow> int" where
  "ascii_lower c = (if 65 \<le> c \<and> c \<le> 90 then c + 32 else c)"

text \<open>
  The case mappings of the other code points are those of the Unicode tables of the
  Python runtime, which are not part of the program: they are a parameter. A code point
  may map to several (\<open>str.upper\<close> turns U+00DF into SS). \<open>lower_full\<close> is given the
  whole string and the position, since the lower case of U+03A3 depends on what is around
  it. No whitespace code point has a case mapping.
\<close>

record case_tables =
  upper_full :: "int \<Rightarrow> pystr"
  title_full :: "int \<Rightarrow> pystr"
  lower_full :: "pystr \<Rightarrow> nat \<Rightarrow> pystr"

definition upper_cp :: "case_tables \<Rightarrow> int \<Rightarrow> pystr" where
  "upper_cp T c =
     (if c < 128 then [ascii_upper c] else if is_space c then [c] else upper_full T c)"

definition title_cp :: "case_tables \<Rightarrow> int \<Rightarrow> pystr" where
  "title_cp T c =
     (if c < 128 then [ascii_upper c] else if is_space c then [c] else title_full T c)"

definition lower_cp :: "case_tables \<Rightarrow> pystr \<Rightarrow> nat \<Rightarrow> pystr" where
  "lower_cp T s i =
     (let c = s ! i
      in if c < 128 then [ascii_lower c] else if is_space c then [c] else lower_full T s i)"

text \<open>\<open>s.upper()\<close>: each code point by itself.\<close>

definition upper :: "case_tables \<Rightarrow> pystr \<Rightarrow> pystr" where
  "upper T s = concat (map (upper_cp T) s)"

text \<open>\<open>s.capitalize()\<close>: the first code point in title case, the others in lower case.\<close>

definition capitalize :: "case_tables \<Rightarrow> pystr \<Rightarrow> pystr" where
  "capitalize T s =
     (case s of
        [] \<Rightarrow> []
      | c # cs \<Rightarrow> title_cp T c @ concat (map (lower_cp T s) [1..<length s]))"

text \<open>\<open>s.strip(chars)\<close>, the code points to remove given as a predicate.\<close>

definition strip_with :: "(int \<Rightarrow> bool) \<Rightarrow> pystr \<Rightarrow> pystr" where
  "strip_with P s = dropWhile P (rev (dropWhile P (rev s)))"

text \<open>\<open>s.strip()\<close>\<close>

definition strip :: "pystr \<Rightarrow> pystr" where
  "strip s = strip_with is_space s"

text \<open>\<open>s.split(c)\<close> for a separator of one character: never an empty list.\<close>

fun split_char :: "int \<Rightarrow> pystr \<Rightarrow> pystr list" where
  "split_char c [] = [[]]"
| "split_char c (x # xs) =
     (if x = c then [] # split_char c xs
      else (case split_char c xs of
              [] \<Rightarrow> [[x]]
            | y # ys \<Rightarrow> (x # y) # ys))"

text \<open>\<open>sep.join(xs)\<close>\<close>

fun join :: "pystr \<Rightarrow> pystr list \<Rightarrow> pystr" where
  "join sep [] = []"
| "join sep [x] = x"
| "join sep (x # y # ys) = x @ sep @ join sep (y # ys)"

text \<open>\<open>sub in s\<close> is \<^const>\<open>sublist\<close>: \<open>sub\<close> occurs in \<open>s\<close> as a contiguous run.\<close>

definition newline :: pystr where
  "newline = [10]"

section \<open>Providers\<close>

text \<open>
  The exceptions of the program. Every failure the agents raise themselves is a
  \<open>RuntimeError\<close>; \<open>AttributeError\<close> is what a method call on \<open>None\<close> raises;
  \<open>OtherException\<close> is any other subclass of \<open>Exception\<close> an implementation of
  \<open>LLMClient.generate\<close> may raise. Each carries the text \<open>str(e)\<close>.
\<close>

datatype exn = RuntimeError pystr | AttributeError pystr | OtherException pystr

fun str_exn :: "exn \<Rightarrow> pystr" where
  "str_exn (RuntimeError m) = m"
| "str_exn (AttributeError m) = m"
| "str_exn (OtherException m) = m"

record constraints =
  max_tokens :: nat
  temperature :: rat

text \<open>
  \<open>LLMClient.generate(prompt, max_tokens, temperature)\<close>: an initialised client answers
  a prompt with a value or raises. The value is text, or \<open>None\<close>:
  \<open>OpenAIClient.generate\<close> returns \<open>response.choices[0].message.content\<close> as it is, and
  a completion may have no content. Each agent calls a client at most once per request,
  so one request sees a client as a function of the prompt and the constraints.
\<close>

type_synonym client = "pystr \<Rightarrow> constraints \<Rightarrow> exn + pystr option"

datatype provider_id = Primary | Secondary

text \<open>
  The attributes the three agent classes set in \<open>__init__\<close>: a client that failed to
  initialise is \<open>None\<close>.
\<close>

record agent =
  primary_client :: "client option"
  secondary_client :: "client option"

text \<open>
  The result of a fallback call is paired with the calls to \<open>generate\<close> it made, in the
  order they were made.
\<close>

type_synonym 'a traced = "provider_id list \<times> (exn + 'a)"

record document =
  page_content :: pystr

section \<open>RelevanceChecker\<close>

text \<open>Steps 2 and 3 of \<open>RelevanceChecker._get_llm_response\<close>, after the calls in \<open>calls\<close>.\<close>

definition RelevanceChecker_try_secondary ::
  "agent \<Rightarrow> pystr \<Rightarrow> constraints \<Rightarrow> provider_id list \<Rightarrow> pystr option traced" where
  "RelevanceChecker_try_secondary self prompt cs calls =
     (case secondary_client self of
        Some c \<Rightarrow>
          (case c prompt cs of
             Inr text \<Rightarrow> (calls @ [Secondary], Inr text)
           | Inl e \<Rightarrow>
               (calls @ [Secondary],
                Inl (RuntimeError (asc ''All models failed to generate a response.''))))
      | None \<Rightarrow> (calls, Inl (RuntimeError (asc ''All models failed to generate a response.''))))"

definition RelevanceChecker_get_llm_response :: "agent \<Rightarrow> pystr \<Rightarrow> pystr option traced" where
  "RelevanceChecker_get_llm_response self prompt =
     (let cs = \<lparr>max_tokens = 1000, temperature = 0\<rparr> in
      case primary_client self of
        Some c \<Rightarrow>
          (case c prompt cs of
             Inr text \<Rightarrow> ([Primary], Inr text)
           | Inl e \<Rightarrow> RelevanceChecker_try_secondary self prompt cs [Primary])
      | None \<Rightarrow> RelevanceChecker_try_secondary self prompt cs [])"

text \<open>\<open>xs[:k]\<close> for an integer \<open>k\<close>: a negative \<open>k\<close> counts from the end.\<close>

definition slice_to :: "int \<Rightarrow> 'a list \<Rightarrow> 'a list" where
  "slice_to k xs = (if 0 \<le> k then take (nat k) xs else take (length xs - nat (- k)) xs)"

text \<open>The classification prompt of \<open>RelevanceChecker.check\<close>.\<close>

definition RelevanceChecker_prompt :: "pystr \<Rightarrow> pystr \<Rightarrow> pystr" where
  "RelevanceChecker_prompt question document_content =
     newline @
     (asc ''        You are an AI relevance checker. '') @ newline @
     (asc ''        Classify how well the document content addresses the user'') @ [39] @
       (asc ''s question.'') @ newline @
     newline @
     (asc ''        **Instructions:**'') @ newline @
     (asc ''        - Respond with ONLY one label: CAN_ANSWER, PARTIAL, or NO_MATCH.'') @ newline @
     (asc ''        - Do not provide any explanation.'') @ newline @
     newline @
     (asc ''        **Labels:**'') @ newline @
     (asc ''        1) '') @ [34] @ (asc ''CAN_ANSWER'') @ [34] @
       (asc '': The passages contain enough information to fully answer.'') @ newline @
     (asc ''        2) '') @ [34] @ (asc ''PARTIAL'') @ [34] @
       (asc '': The passages discuss the topic but lack some details.'') @ newline @
     (asc ''        3) '') @ [34] @ (asc ''NO_MATCH'') @ [34] @
       (asc '': The passages do not mention the topic at all.'') @ newline @
     newline @
     (asc ''        **Question:** '') @ question @ newline @
     (asc ''        **Passages:** '') @ document_content @ newline @
     newline @
     (asc ''        **Respond ONLY with one of the following labels: CAN_ANSWER, PARTIAL, NO_MATCH**'')
       @ newline @
     (asc ''        '')"

text \<open>
  \<open>RelevanceChecker.check(question, retriever, k)\<close>. The retriever is its \<open>invoke\<close>,
  taken to return its passages. Only a \<open>RuntimeError\<close> of the fallback call is caught;
  any other exception leaves \<open>check\<close>. The value the fallback call returns is used as
  it is: \<open>llm_response_text.strip()\<close> on \<open>None\<close> raises \<open>AttributeError\<close>, outside the
  \<open>try\<close>.
\<close>

definition RelevanceChecker_check ::
  "case_tables \<Rightarrow> agent \<Rightarrow> pystr \<Rightarrow> (pystr \<Rightarrow> document list) \<Rightarrow> int \<Rightarrow> pystr traced" where
  "RelevanceChecker_check T self question retriever k =
     (let top_docs = retriever question in
      if top_docs = [] then ([], Inr (asc ''NO_MATCH''))
      else
        let document_content = join (newline @ newline) (map page_content (slice_to k top_docs));
            prompt = RelevanceChecker_prompt question document_content
        in case RelevanceChecker_get_llm_response self prompt of
             (calls, Inl (RuntimeError m)) \<Rightarrow> (calls, Inr (asc ''NO_MATCH''))
           | (calls, Inl (AttributeError m)) \<Rightarrow> (calls, Inl (AttributeError m))
           | (calls, Inl (OtherException m)) \<Rightarrow> (calls, Inl (OtherException m))
           | (calls, Inr None) \<Rightarrow>
               (calls, Inl (AttributeError
                  ([39] @ (asc ''NoneType'') @ [39] @ (asc '' object has no attribute '') @
                   [39] @ (asc ''strip'') @ [39])))
           | (calls, Inr (Some llm_response_text)) \<Rightarrow>
               (let llm_response = upper T (strip llm_response_text) in
                if sublist (asc ''CAN_ANSWER'') llm_response then (calls, Inr (asc ''CAN_ANSWER''))
                else if sublist (asc ''PART'') llm_response then (calls, Inr (asc ''PARTIAL''))
                else if sublist (asc ''NO_MATCH'') llm_response then (calls, Inr (asc ''NO_MATCH''))
                else (calls, Inr (asc ''NO_MATCH''))))"

section \<open>ResearchAgent\<close>

text \<open>\<open>sanitize_response\<close>, the same in \<open>ResearchAgent\<close> and \<open>VerificationAgent\<close>.\<close>

definition sanitize_response :: "pystr \<Rightarrow> pystr" where
  "sanitize_response response_text = strip response_text"

definition ResearchAgent_generate_prompt :: "pystr \<Rightarrow> pystr \<Rightarrow> pystr" where
  "ResearchAgent_generate_prompt question context =
     newline @
     (asc ''        You are an AI assistant designed to provide precise and factual answers based on the given context.'') @ newline @
     newline @
     (asc ''        **Instructions:**'') @ newline @
     (asc ''        - Answer the following question using only the provided context.'') @ newline @
     (asc ''        - Be clear, concise, and factual.'') @ newline @
     (asc ''        - Return as much information as you can get from the context.'') @ newline @
     (asc ''        '') @ newline @
     (asc ''        **Question:** '') @ question @ newline @
     (asc ''        **Context:**'') @ newline @
     (asc ''        '') @ context @ newline @
     newline @
     (asc ''        **Provide your answer below:**'') @ newline @
     (asc ''        '')"

text \<open>
  Step 2 and the final \<open>raise\<close> of \<open>ResearchAgent._get_llm_response\<close> and of
  \<open>VerificationAgent._get_llm_response\<close>, whose text is the same: a failure of the
  secondary client whose text contains 429 raises the rate-limit error. Of an exception,
  the model keeps the class and the text, not the \<open>__cause__\<close> set by \<open>raise ... from e\<close>.
\<close>

definition try_secondary_429 ::
  "agent \<Rightarrow> pystr \<Rightarrow> constraints \<Rightarrow> provider_id list \<Rightarrow> pystr option traced" where
  "try_secondary_429 self prompt cs calls =
     (case secondary_client self of
        Some c \<Rightarrow>
          (case c prompt cs of
             Inr text \<Rightarrow> (calls @ [Secondary], Inr text)
           | Inl e \<Rightarrow>
               if sublist (asc ''429'') (str_exn e)
               then (calls @ [Secondary],
                     Inl (RuntimeError (asc ''Rate limit reached. Please wait 60 seconds.'')))
               else (calls @ [Secondary],
                     Inl (RuntimeError
                       (asc ''No AI models are currently responding. Check your API keys.''))))
      | None \<Rightarrow>
          (calls,
           Inl (RuntimeError (asc ''No AI models are currently responding. Check your API keys.''))))"

definition ResearchAgent_get_llm_response :: "agent \<Rightarrow> pystr \<Rightarrow> pystr option traced" where
  "ResearchAgent_get_llm_response self prompt =
     (let cs = \<lparr>max_tokens = 4000, temperature = 3 / 10\<rparr> in
      case primary_client self of
        Some c \<Rightarrow>
          (case c prompt cs of
             Inr text \<Rightarrow> ([Primary], Inr text)
           | Inl e \<Rightarrow> try_secondary_429 self prompt cs [Primary])
      | None \<Rightarrow> try_secondary_429 self prompt cs [])"

text \<open>
  \<open>ResearchAgent.generate(question, documents)\<close>; the dictionary it returns is the pair
  of its \<open>draft_answer\<close> and its \<open>context_used\<close>. \<open>if raw_answer\<close> is false for \<open>None\<close>
  and for the empty string.
\<close>

definition ResearchAgent_generate ::
  "agent \<Rightarrow> pystr \<Rightarrow> document list \<Rightarrow> (pystr \<times> pystr) traced" where
  "ResearchAgent_generate self question documents =
     (let context = join (newline @ newline) (map page_content documents);
          prompt = ResearchAgent_generate_prompt question context
      in case ResearchAgent_get_llm_response self prompt of
           (calls, Inl e) \<Rightarrow>
             (calls, Inl (RuntimeError (asc ''Failed to generate answer due to a model error.'')))
         | (calls, Inr raw_answer) \<Rightarrow>
             (let draft_answer =
                    (case raw_answer of
                       Some text \<Rightarrow>
                         if text \<noteq> [] then sanitize_response text
                         else (asc ''I cannot answer this question.'')
                     | None \<Rightarrow> (asc ''I cannot answer this question.''))
              in (calls, Inr (draft_answer, context))))"

section \<open>VerificationAgent\<close>

definition VerificationAgent_generate_prompt :: "pystr \<Rightarrow> pystr \<Rightarrow> pystr" where
  "VerificationAgent_generate_prompt answer context =
     newline @
     (asc ''        You are an AI assistant designed to verify the accuracy and relevance of answers based on provided context.'') @ newline @
     newline @
     (asc ''        **Instructions:**'') @ newline @
     (asc ''        - Verify the following answer against the provided context.'') @ newline @
     (asc ''        - Check for:'') @ newline @
     (asc ''        1. Direct/indirect factual support (YES/NO)'') @ newline @
     (asc ''        2. Unsupported claims (list any if present)'') @ newline @
     (asc ''        3. Contradictions (list any if present)'') @ newline @
     (asc ''        4. Relevance to the question (YES/NO)'') @ newline @
     (asc ''        - Provide additional details or explanations where relevant.'') @ newline @
     (asc ''        - Respond in the exact format specified below without adding any unrelated information.'') @ newline @
     newline @
     (asc ''        **Format:**'') @ newline @
     (asc ''        Supported: YES/NO'') @ newline @
     (asc ''        Unsupported Claims: [item1, item2, ...]'') @ newline @
     (asc ''        Contradictions: [item1, item2, ...]'') @ newline @
     (asc ''        Relevant: YES/NO'') @ newline @
     (asc ''        Additional Details: [Any extra information or explanations]'') @ newline @
     newline @
     (asc ''        **Answer:** '') @ answer @ newline @
     (asc ''        **Context:**'') @ newline @
     (asc ''        '') @ context @ newline @
     newline @
     (asc ''        **Respond ONLY with the above format.**'') @ newline @
     (asc ''        '')"

text \<open>
  The values of the report dictionary are strings and lists of strings; the dictionary
  is a map from its keys.
\<close>

datatype pyval = Str pystr | Lst "pystr list"

type_synonym verification = "pystr \<rightharpoonup> pyval"

text \<open>
  The items of a bracketed list value:
  \<open>[item.strip().strip('"').strip("'") for item in value[1:-1].split(',') if item.strip()]\<close>.
  \<open>value[1:-1]\<close> is empty when \<open>value\<close> has fewer than two characters.
\<close>

definition list_items :: "pystr \<Rightarrow> pystr list" where
  "list_items v =
     map (\<lambda>item. strip_with (\<lambda>c. c = 39) (strip_with (\<lambda>c. c = 34) (strip item)))
       (filter (\<lambda>item. strip item \<noteq> []) (split_char (44) (butlast (tl v))))"

text \<open>
  \<open>key, value = line.split(':', 1)\<close>, then \<open>key.strip().capitalize()\<close> and
  \<open>value.strip()\<close>, for a line that contains a colon.
\<close>

definition line_key :: "case_tables \<Rightarrow> pystr \<Rightarrow> pystr" where
  "line_key T line = capitalize T (strip (takeWhile (\<lambda>c. c \<noteq> 58) line))"

definition line_value :: "pystr \<Rightarrow> pystr" where
  "line_value line = strip (tl (dropWhile (\<lambda>c. c \<noteq> 58) line))"

text \<open>\<open>value.startswith('[') and value.endswith(']')\<close>\<close>

definition bracketed :: "pystr \<Rightarrow> bool" where
  "bracketed v \<longleftrightarrow> v \<noteq> [] \<and> hd v = 91 \<and> last v = 93"

text \<open>The body of the loop over the lines in \<open>parse_verification_response\<close>.\<close>

definition parse_line :: "case_tables \<Rightarrow> verification \<Rightarrow> pystr \<Rightarrow> verification" where
  "parse_line T verification line =
     (if 58 \<in> set line then
        (let key = line_key T line;
             v = line_value line
         in if key \<in> set [(asc ''Supported''), (asc ''Unsupported claims''), (asc ''Contradictions''),
                           (asc ''Relevant''), (asc ''Additional details'')] then
              (if key \<in> set [(asc ''Unsupported claims''), (asc ''Contradictions'')] then
                 (if bracketed v
                  then verification(key \<mapsto> Lst (list_items v))
                  else verification(key \<mapsto> Lst []))
               else if key = (asc ''Additional details'') then verification(key \<mapsto> Str v)
               else verification(key \<mapsto> Str (upper T v)))
            else verification)
      else verification)"

text \<open>The body of the loop that ensures all keys are present.\<close>

definition ensure_key :: "verification \<Rightarrow> pystr \<Rightarrow> verification" where
  "ensure_key verification key =
     (if verification key = None then
        (if key \<in> set [(asc ''Unsupported Claims''), (asc ''Contradictions'')] then verification(key \<mapsto> Lst [])
         else if key = (asc ''Additional Details'') then verification(key \<mapsto> Str [])
         else verification(key \<mapsto> Str (asc ''NO'')))
      else verification)"

text \<open>The keys that loop runs over.\<close>

definition canonical_keys :: "pystr list" where
  "canonical_keys = [(asc ''Supported''), (asc ''Unsupported Claims''), (asc ''Contradictions''), (asc ''Relevant''),
                     (asc ''Additional Details'')]"

text \<open>
  \<open>parse_verification_response\<close>: \<open>None\<close> is the result of the \<open>except\<close> branch, which no
  operation of the \<open>try\<close> block on a string reaches.
\<close>

definition parse_verification_response :: "case_tables \<Rightarrow> pystr \<Rightarrow> verification option" where
  "parse_verification_response T response_text =
     (let lines = split_char (10) response_text;
          verification = foldl (parse_line T) Map.empty lines
      in Some (foldl ensure_key verification canonical_keys))"

text \<open>
  What \<open>format_verification_report\<close> does with a value: \<open>d.get(key, default)\<close>, the truth
  value of \<open>if x:\<close>, \<open>', '.join(x)\<close> (over the characters when \<open>x\<close> is a string) and
  the text an f-string puts for \<open>{x}\<close>. For a list that text is its \<open>repr\<close>, modelled
  for items that need no escaping; the reports of this program hold strings where an
  f-string prints the value (\<open>report_shape\<close> below).
\<close>

definition py_get :: "verification \<Rightarrow> pystr \<Rightarrow> pyval \<Rightarrow> pyval" where
  "py_get d key dflt = (case d key of Some x \<Rightarrow> x | None \<Rightarrow> dflt)"

fun py_truthy :: "pyval \<Rightarrow> bool" where
  "py_truthy (Str s) = (s \<noteq> [])"
| "py_truthy (Lst xs) = (xs \<noteq> [])"

fun py_join :: "pystr \<Rightarrow> pyval \<Rightarrow> pystr" where
  "py_join sep (Lst xs) = join sep xs"
| "py_join sep (Str s) = join sep (map (\<lambda>c. [c]) s)"

fun py_format :: "pyval \<Rightarrow> pystr" where
  "py_format (Str s) = s"
| "py_format (Lst xs) = (asc ''['') @ join (asc '', '') (map (\<lambda>x. [39] @ x @ [39]) xs) @ (asc '']'')"

definition format_verification_report :: "verification \<Rightarrow> pystr" where
  "format_verification_report verification =
     (let supported = py_get verification (asc ''Supported'') (Str (asc ''NO''));
          unsupported_claims = py_get verification (asc ''Unsupported Claims'') (Lst []);
          contradictions = py_get verification (asc ''Contradictions'') (Lst []);
          relevant = py_get verification (asc ''Relevant'') (Str (asc ''NO''));
          additional_details = py_get verification (asc ''Additional Details'') (Str [])
      in (asc ''**Supported:** '') @ py_format supported @ newline @
         (if py_truthy unsupported_claims
          then (asc ''**Unsupported Claims:** '') @ py_join (asc '', '') unsupported_claims @ newline
          else (asc ''**Unsupported Claims:** None'') @ newline) @
         (if py_truthy contradictions
          then (asc ''**Contradictions:** '') @ py_join (asc '', '') contradictions @ newline
          else (asc ''**Contradictions:** None'') @ newline) @
         (asc ''**Relevant:** '') @ py_format relevant @ newline @
         (if py_truthy additional_details
          then (asc ''**Additional Details:** '') @ py_format additional_details @ newline
          else (asc ''**Additional Details:** None'') @ newline))"

definition VerificationAgent_get_llm_response :: "agent \<Rightarrow> pystr \<Rightarrow> pystr option traced" where
  "VerificationAgent_get_llm_response self prompt =
     (let cs = \<lparr>max_tokens = 3000, temperature = 0\<rparr> in
      case primary_client self of
        Some c \<Rightarrow>
          (case c prompt cs of
             Inr text \<Rightarrow> ([Primary], Inr text)
           | Inl e \<Rightarrow> try_secondary_429 self prompt cs [Primary])
      | None \<Rightarrow> try_secondary_429 self prompt cs [])"

text \<open>The all-default report \<open>check\<close> builds, with its note.\<close>

definition default_report :: "pystr \<Rightarrow> verification" where
  "default_report note =
     [(asc ''Supported'') \<mapsto> Str (asc ''NO''), (asc ''Unsupported Claims'') \<mapsto> Lst [],
      (asc ''Contradictions'') \<mapsto> Lst [], (asc ''Relevant'') \<mapsto> Str (asc ''NO''),
      (asc ''Additional Details'') \<mapsto> Str note]"

text \<open>
  Steps 2 and 3 of \<open>VerificationAgent.check\<close>: the dictionary \<open>verification_report\<close> it
  builds from the value the fallback call returned. \<open>if llm_response\<close> is false for
  \<open>None\<close> and for the empty string.
\<close>

definition verification_report_of :: "case_tables \<Rightarrow> pystr option \<Rightarrow> verification" where
  "verification_report_of T llm_response =
     (let sanitized_response =
            (case llm_response of
               Some text \<Rightarrow> if text \<noteq> [] then sanitize_response text else []
             | None \<Rightarrow> [])
      in if sanitized_response = [] then default_report (asc ''Empty response from the model.'')
         else (case parse_verification_response T sanitized_response of
                 None \<Rightarrow> default_report ((asc ''Failed to parse the model'') @ [39] @ (asc ''s response.''))
               | Some verification_report \<Rightarrow> verification_report))"

text \<open>
  \<open>VerificationAgent.check(answer, documents)\<close>; the dictionary it returns is the pair of
  its \<open>verification_report\<close>, the formatted text, and its \<open>context_used\<close>.
\<close>

definition VerificationAgent_check ::
  "case_tables \<Rightarrow> agent \<Rightarrow> pystr \<Rightarrow> document list \<Rightarrow> (pystr \<times> pystr) traced" where
  "VerificationAgent_check T self answer documents =
     (let context = join (newline @ newline) (map page_content documents);
          prompt = VerificationAgent_generate_prompt answer context
      in case VerificationAgent_get_llm_response self prompt of
           (calls, Inl e) \<Rightarrow>
             (calls, Inl (RuntimeError (asc ''Failed to verify answer due to a model error.'')))
         | (calls, Inr llm_response) \<Rightarrow>
             (calls, Inr (format_verification_report (verification_report_of T llm_response),
                          context)))"

section \<open>Clients for the examples\<close>

definition always_succeeds :: "pystr \<Rightarrow> client" where
  "always_succeeds text = (\<lambda>prompt cs. Inr (Some text))"

definition returns_None :: client where
  "returns_None = (\<lambda>prompt cs. Inr None)"

definition always_fails :: "pystr \<Rightarrow> client" where
  "always_fails msg = (\<lambda>prompt cs. Inl (RuntimeError msg))"

definition one_document :: "document list" where
  "one_document = [\<lparr>page_content = (asc ''X is 42.'')\<rparr>]"

definition retrieves :: "document list \<Rightarrow> pystr \<Rightarrow> document list" where
  "retrieves docs = (\<lambda>question. docs)"

section \<open>The requests the agents send\<close>

text \<open>The prompt \<open>RelevanceChecker.check\<close> passes to its fallback call.\<close>

definition relevance_prompt_of :: "pystr \<Rightarrow> (pystr \<Rightarrow> document list) \<Rightarrow> int \<Rightarrow> pystr" where
  "relevance_prompt_of question retriever k =
     RelevanceChecker_prompt question
       (join (newline @ newline) (map page_content (slice_to k (retriever question))))"

text \<open>The prompt \<open>ResearchAgent.generate\<close> passes to its fallback call.\<close>

definition research_prompt_of :: "pystr \<Rightarrow> document list \<Rightarrow> pystr" where
  "research_prompt_of question documents =
     ResearchAgent_generate_prompt question (join (newline @ newline) (map page_content documents))"

text \<open>The prompt \<open>VerificationAgent.check\<close> passes to its fallback call.\<close>

definition verification_prompt_of :: "pystr \<Rightarrow> document list \<Rightarrow> pystr" where
  "verification_prompt_of answer documents =
     VerificationAgent_generate_prompt answer
       (join (newline @ newline) (map page_content documents))"

text \<open>
  An excerpt of the Unicode case tables, for the examples: the upper and title case of
  U+017F (long s) is S, of U+00E9 is U+00C9; the lower case of U+00C9 is U+00E9. The
  examples use no other code point beyond ASCII.
\<close>

definition example_tables :: case_tables where
  "example_tables =
     \<lparr>upper_full = (\<lambda>c. if c = 0x17F then [0x53] else if c = 0xE9 then [0xC9] else [c]),
      title_full = (\<lambda>c. if c = 0x17F then [0x53] else if c = 0xE9 then [0xC9] else [c]),
      lower_full = (\<lambda>s i. if s ! i = 0xC9 then [0xE9] else [s ! i])\<rparr>"

section \<open>The claims in the specification's words\<close>

text \<open>
  The shape of a verification report: each of the five fields is there, the two
  verdicts and the details as strings, the two lists as lists.
\<close>

definition report_shape :: "verification \<Rightarrow> bool" where
  "report_shape r \<longleftrightarrow>
     (case r (asc ''Supported'') of Some (Str s) \<Rightarrow> True | _ \<Rightarrow> False) \<and>
     (case r (asc ''Unsupported Claims'') of Some (Lst xs) \<Rightarrow> True | _ \<Rightarrow> False) \<and>
     (case r (asc ''Contradictions'') of Some (Lst xs) \<Rightarrow> True | _ \<Rightarrow> False) \<and>
     (case r (asc ''Relevant'') of Some (Str s) \<Rightarrow> True | _ \<Rightarrow> False) \<and>
     (case r (asc ''Additional Details'') of Some (Str s) \<Rightarrow> True | _ \<Rightarrow> False)"

text \<open>The calls a first-success-wins fallback makes: Primary when it is there, then
  Secondary when it is there and Primary is absent or has failed.\<close>

definition fallback_calls :: "constraints \<Rightarrow> agent \<Rightarrow> pystr \<Rightarrow> provider_id list" where
  "fallback_calls cs self prompt =
     (case primary_client self of None \<Rightarrow> [] | Some c \<Rightarrow> [Primary]) @
     (if (case primary_client self of None \<Rightarrow> True | Some c \<Rightarrow> isl (c prompt cs))
      then (case secondary_client self of None \<Rightarrow> [] | Some s \<Rightarrow> [Secondary])
      else [])"

text \<open>
  First success wins, for a fallback call \<open>f\<close> that passes the constraints \<open>cs\<close>: the
  calls are those of \<open>fallback_calls\<close>, so in the order Primary, Secondary and each at
  most once; a success of the primary client is returned with no further call; when the
  primary client fails or is absent and the secondary client succeeds, the result is the
  secondary client's.
\<close>

definition first_success_wins ::
  "(agent \<Rightarrow> pystr \<Rightarrow> pystr option traced) \<Rightarrow> constraints \<Rightarrow> agent \<Rightarrow> pystr \<Rightarrow> bool" where
  "first_success_wins f cs self prompt \<longleftrightarrow>
     fst (f self prompt) = fallback_calls cs self prompt \<and>
     (\<forall>c v. primary_client self = Some c \<and> c prompt cs = Inr v \<longrightarrow>
        f self prompt = ([Primary], Inr v)) \<and>
     (\<forall>c e s v. primary_client self = Some c \<and> c prompt cs = Inl e \<and>
        secondary_client self = Some s \<and> s prompt cs = Inr v \<longrightarrow>
        f self prompt = ([Primary, Secondary], Inr v)) \<and>
     (\<forall>s v. primary_client self = None \<and>
        secondary_client self = Some s \<and> s prompt cs = Inr v \<longrightarrow>
        f self prompt = ([Secondary], Inr v))"

text \<open>Every provider is absent or fails on the prompt.\<close>

definition every_provider_fails :: "constraints \<Rightarrow> agent \<Rightarrow> pystr \<Rightarrow> bool" where
  "every_provider_fails cs self prompt \<longleftrightarrow>
     (case primary_client self of None \<Rightarrow> True | Some c \<Rightarrow> isl (c prompt cs)) \<and>
     (case secondary_client self of None \<Rightarrow> True | Some c \<Rightarrow> isl (c prompt cs))"

text \<open>The secondary client is there and fails with a text that contains 429.\<close>

definition secondary_rate_limited :: "constraints \<Rightarrow> agent \<Rightarrow> pystr \<Rightarrow> bool" where
  "secondary_rate_limited cs self prompt \<longleftrightarrow>
     (case secondary_client self of
        None \<Rightarrow> False
      | Some c \<Rightarrow>
          (case c prompt cs of Inl e \<Rightarrow> sublist (asc ''429'') (str_exn e) | Inr v \<Rightarrow> False))"

text \<open>
  What the loop over the lines keeps true of the dictionary it fills: under Supported
  and Relevant there is nothing or the upper case of a string, under Contradictions
  nothing or a list, and under the keys Unsupported Claims and Additional Details
  nothing.
\<close>

definition upper_str_or_none :: "case_tables \<Rightarrow> pyval option \<Rightarrow> bool" where
  "upper_str_or_none T x =
     (case x of None \<Rightarrow> True | Some (Str s) \<Rightarrow> (\<exists>v. s = upper T v) | Some (Lst xs) \<Rightarrow> False)"

definition list_or_none :: "pyval option \<Rightarrow> bool" where
  "list_or_none x = (case x of None \<Rightarrow> True | Some (Str s) \<Rightarrow> False | Some (Lst xs) \<Rightarrow> True)"

definition parsed_shape :: "case_tables \<Rightarrow> verification \<Rightarrow> bool" where
  "parsed_shape T v \<longleftrightarrow>
     upper_str_or_none T (v (asc ''Supported'')) \<and> upper_str_or_none T (v (asc ''Relevant'')) \<and>
     list_or_none (v (asc ''Contradictions'')) \<and>
     v (asc ''Unsupported Claims'') = None \<and> v (asc ''Additional Details'') = None"

section \<open>Facts about the string operations\<close>

lemma asc_eq_iff: "asc a = asc b \<longleftrightarrow> a = b"
  unfolding asc_def by (rule inj_map_eq_map) (simp add: inj_on_def)

lemma upper_cp_space: "is_space c \<Longrightarrow> upper_cp T c = [c]"
  by (auto simp: upper_cp_def ascii_upper_def is_space_def)

lemma upper_spaces: "\<forall>c\<in>set ws. is_space c \<Longrightarrow> upper T ws = ws"
  by (induction ws) (simp_all add: upper_def upper_cp_space)

lemma upper_append: "upper T (a @ b) = upper T a @ upper T b"
  by (simp add: upper_def)

lemma sublist_dropWhile_keep:
  assumes "sublist p xs" "p \<noteq> []" "\<not> P (hd p)"
  shows "sublist p (dropWhile P xs)"
proof -
  from assms(1) obtain ps ss where xs: "xs = ps @ p @ ss" by (auto simp: sublist_def)
  have "sublist p (dropWhile P (ps @ p @ ss))"
  proof (induction ps)
    case Nil
    from assms(2,3) have "dropWhile P (p @ ss) = p @ ss" by (cases p) auto
    then show ?case by simp
  next
    case (Cons a ps)
    show ?case
    proof (cases "P a")
      case True then show ?thesis using Cons by simp
    next
      case False
      have "sublist p ((a # ps) @ p @ ss)" by (rule sublist_appendI)
      with False show ?thesis by simp
    qed
  qed
  with xs show ?thesis by simp
qed

lemma sublist_skip_left:
  assumes ws: "\<forall>c\<in>set ws. P c" and p: "p \<noteq> []" "\<not> P (hd p)" and s: "sublist p (ws @ xs)"
  shows "sublist p xs"
proof -
  from s p have "sublist p (dropWhile P (ws @ xs))" by (rule sublist_dropWhile_keep)
  moreover from ws have "dropWhile P (ws @ xs) = dropWhile P xs" by (simp add: dropWhile_append2)
  moreover have "sublist (dropWhile P xs) xs" by (rule sublist_dropWhile)
  ultimately show ?thesis by (metis sublist_order.order_trans)
qed

lemma sublist_skip_right:
  assumes ws: "\<forall>c\<in>set ws. P c" and p: "p \<noteq> []" "\<not> P (last p)" and s: "sublist p (xs @ ws)"
  shows "sublist p xs"
proof -
  from s have "sublist (rev p) (rev ws @ rev xs)" by (metis rev_append sublist_rev)
  moreover from ws have "\<forall>c\<in>set (rev ws). P c" by simp
  moreover from p have "rev p \<noteq> []" "\<not> P (hd (rev p))" by (simp_all add: hd_rev)
  ultimately have "sublist (rev p) (rev xs)" by (metis sublist_skip_left)
  then show ?thesis by simp
qed

lemma strip_decomposition:
  "\<exists>a b. s = a @ strip s @ b \<and> (\<forall>c\<in>set a. is_space c) \<and> (\<forall>c\<in>set b. is_space c)"
proof -
  let ?r = "rev (dropWhile is_space (rev s))"
  let ?b = "rev (takeWhile is_space (rev s))"
  let ?a = "takeWhile is_space ?r"
  have "rev s = takeWhile is_space (rev s) @ dropWhile is_space (rev s)" by simp
  then have "rev (rev s) = rev (takeWhile is_space (rev s) @ dropWhile is_space (rev s))"
    by (rule arg_cong)
  then have s: "s = ?r @ ?b" by (simp only: rev_rev_ident rev_append)
  have r: "?r = ?a @ strip s" by (simp add: strip_def strip_with_def)
  have a: "\<forall>c\<in>set ?a. is_space c" by (auto dest: set_takeWhileD)
  have b: "\<forall>c\<in>set ?b. is_space c" by (auto dest: set_takeWhileD)
  from s r have "s = ?a @ strip s @ ?b" by (metis append.assoc)
  with a b show ?thesis by blast
qed

lemma sublist_upper_strip:
  assumes p: "p \<noteq> []" "\<not> is_space (hd p)" "\<not> is_space (last p)"
  shows "sublist p (upper T (strip t)) = sublist p (upper T t)"
proof -
  obtain a b where t: "t = a @ strip t @ b" and a: "\<forall>c\<in>set a. is_space c"
    and b: "\<forall>c\<in>set b. is_space c"
    using strip_decomposition[of t] by blast
  from t have "upper T t = upper T a @ upper T (strip t) @ upper T b"
    by (metis upper_append)
  with a b have u: "upper T t = a @ upper T (strip t) @ b" by (simp add: upper_spaces)
  show ?thesis
  proof
    assume "sublist p (upper T (strip t))"
    then obtain ps ss where "upper T (strip t) = ps @ p @ ss" by (auto simp: sublist_def)
    with u have "upper T t = (a @ ps) @ p @ (ss @ b)" by simp
    then show "sublist p (upper T t)" by (metis sublist_appendI)
  next
    assume "sublist p (upper T t)"
    with u have "sublist p ((a @ upper T (strip t)) @ b)" by simp
    with b p have "sublist p (a @ upper T (strip t))" by (metis sublist_skip_right)
    with a p show "sublist p (upper T (strip t))" by (metis sublist_skip_left)
  qed
qed

lemma label_in_cleaned:
  "sublist (asc ''CAN_ANSWER'') (upper T (strip t)) = sublist (asc ''CAN_ANSWER'') (upper T t)"
  "sublist (asc ''PART'') (upper T (strip t)) = sublist (asc ''PART'') (upper T t)"
  "sublist (asc ''NO_MATCH'') (upper T (strip t)) = sublist (asc ''NO_MATCH'') (upper T t)"
  by (rule sublist_upper_strip; simp add: asc_def is_space_def)+

lemma strip_trimmed:
  assumes "strip s \<noteq> []"
  shows "\<not> is_space (hd (strip s)) \<and> \<not> is_space (last (strip s))"
proof -
  let ?ys = "rev (dropWhile is_space (rev s))"
  have s: "strip s = dropWhile is_space ?ys" by (simp add: strip_def strip_with_def)
  with assms have ne: "dropWhile is_space ?ys \<noteq> []" by simp
  then have h: "\<not> is_space (hd (dropWhile is_space ?ys))" by (rule hd_dropWhile)
  have "dropWhile is_space [] = ([]::pystr)" by simp
  with ne have ys: "?ys \<noteq> []" by metis
  then have d: "dropWhile is_space (rev s) \<noteq> []" by simp
  obtain zs where "?ys = zs @ dropWhile is_space ?ys"
    by (metis takeWhile_dropWhile_id)
  with ne have "last (dropWhile is_space ?ys) = last ?ys" by (metis last_appendR)
  also have "\<dots> = hd (dropWhile is_space (rev s))" using d by (simp add: last_rev)
  finally have "\<not> is_space (last (dropWhile is_space ?ys))" using hd_dropWhile[OF d] by simp
  with h s show ?thesis by simp
qed

lemma strip_Nil: "strip [] = []"
  by (simp add: strip_def strip_with_def)

lemma upper_NO: "upper T (asc ''NO'') = asc ''NO''"
  by (simp add: upper_def upper_cp_def ascii_upper_def asc_def)

section \<open>RelevanceChecker: the label\<close>

lemma RelevanceChecker_fallback_error:
  "snd (RelevanceChecker_get_llm_response self prompt) = Inl e \<Longrightarrow>
   e = RuntimeError (asc ''All models failed to generate a response.'')"
  by (auto simp: RelevanceChecker_get_llm_response_def RelevanceChecker_try_secondary_def Let_def
      split: option.splits sum.splits)

lemma RelevanceChecker_check_cases:
  "snd (RelevanceChecker_check T self question retriever k) =
     (if retriever question = [] then Inr (asc ''NO_MATCH'')
      else case snd (RelevanceChecker_get_llm_response self (relevance_prompt_of question retriever k)) of
             Inl e \<Rightarrow> Inr (asc ''NO_MATCH'')
           | Inr None \<Rightarrow>
               Inl (AttributeError
                 ([39] @ asc ''NoneType'' @ [39] @ asc '' object has no attribute '' @
                  [39] @ asc ''strip'' @ [39]))
           | Inr (Some t) \<Rightarrow>
               if sublist (asc ''CAN_ANSWER'') (upper T t) then Inr (asc ''CAN_ANSWER'')
               else if sublist (asc ''PART'') (upper T t) then Inr (asc ''PARTIAL'')
               else Inr (asc ''NO_MATCH''))"
proof (cases "RelevanceChecker_get_llm_response self (relevance_prompt_of question retriever k)")
  case (Pair calls res)
  show ?thesis
  proof (cases res)
    case (Inl e)
    with Pair have "e = RuntimeError (asc ''All models failed to generate a response.'')"
      using RelevanceChecker_fallback_error[of self "relevance_prompt_of question retriever k" e] by simp
    with Pair Inl show ?thesis
      by (simp add: RelevanceChecker_check_def relevance_prompt_of_def Let_def)
  next
    case (Inr v)
    with Pair show ?thesis
      by (cases v) (simp_all add: RelevanceChecker_check_def relevance_prompt_of_def Let_def label_in_cleaned)
  qed
qed

text \<open>
  Whenever the fallback call does not return \<open>None\<close>, \<open>check\<close> raises nothing and
  returns one of the three labels; a text whose upper case contains neither CAN_ANSWER
  nor PART gives NO_MATCH.
\<close>

lemma RelevanceChecker_check_label:
  "snd (RelevanceChecker_get_llm_response self (relevance_prompt_of question retriever k)) \<noteq> Inr None
   \<Longrightarrow> \<exists>l. snd (RelevanceChecker_check T self question retriever k) = Inr l \<and>
          l \<in> set [asc ''CAN_ANSWER'', asc ''PARTIAL'', asc ''NO_MATCH'']"
  by (auto simp: RelevanceChecker_check_cases split: sum.splits option.splits)

lemma RelevanceChecker_check_unmatched:
  "snd (RelevanceChecker_get_llm_response self (relevance_prompt_of question retriever k)) = Inr (Some t)
   \<Longrightarrow> \<not> sublist (asc ''CAN_ANSWER'') (upper T t) \<Longrightarrow> \<not> sublist (asc ''PART'') (upper T t)
   \<Longrightarrow> snd (RelevanceChecker_check T self question retriever k) = Inr (asc ''NO_MATCH'')"
  by (simp add: RelevanceChecker_check_cases)

text \<open>
  Claim C3, at a provider that returns \<open>None\<close>: with the primary client absent and a
  secondary client whose completion has no content, the fallback call returns \<open>None\<close>
  and \<open>RelevanceChecker.check\<close> raises \<open>AttributeError\<close> at
  \<open>llm_response_text.strip()\<close>, where the claim has it return one of the three labels
  and never raise. \<open>ResearchAgent.generate\<close> and \<open>VerificationAgent.check\<close> test the
  value before they use it.
\<close>

theorem RelevanceChecker_check_None:
  "snd (RelevanceChecker_get_llm_response
          \<lparr>primary_client = None, secondary_client = Some returns_None\<rparr>
          (relevance_prompt_of (asc ''What is X?'') (retrieves one_document) 3)) = Inr None \<and>
   snd (RelevanceChecker_check example_tables
          \<lparr>primary_client = None, secondary_client = Some returns_None\<rparr>
          (asc ''What is X?'') (retrieves one_document) 3)
     = Inl (AttributeError
          ([39] @ asc ''NoneType'' @ [39] @ asc '' object has no attribute '' @
           [39] @ asc ''strip'' @ [39]))"
  by (simp add: RelevanceChecker_check_cases RelevanceChecker_get_llm_response_def
      RelevanceChecker_try_secondary_def returns_None_def retrieves_def one_document_def)

text \<open>
  Claim C6: when the upper-cased raw output contains CAN_ANSWER, the label is
  CAN_ANSWER, whatever else the text holds, PART included; PART is tested next, before
  NO_MATCH.
\<close>

theorem RelevanceChecker_check_CAN_ANSWER_first:
  "retriever question \<noteq> [] \<Longrightarrow>
   snd (RelevanceChecker_get_llm_response self (relevance_prompt_of question retriever k))
     = Inr (Some t) \<Longrightarrow>
   (sublist (asc ''CAN_ANSWER'') (upper T t) \<longrightarrow>
      snd (RelevanceChecker_check T self question retriever k) = Inr (asc ''CAN_ANSWER'')) \<and>
   (\<not> sublist (asc ''CAN_ANSWER'') (upper T t) \<and> sublist (asc ''PART'') (upper T t) \<longrightarrow>
      snd (RelevanceChecker_check T self question retriever k) = Inr (asc ''PARTIAL''))"
  by (simp add: RelevanceChecker_check_cases)

theorem RelevanceChecker_check_CAN_ANSWER_first_witness:
  "retrieves one_document (asc ''What is X?'') \<noteq> [] \<and>
   sublist (asc ''CAN_ANSWER'')
     (upper example_tables (asc ''Partly, but I think can_an'' @ [0x17F] @ asc ''wer.'')) \<and>
   sublist (asc ''PART'')
     (upper example_tables (asc ''Partly, but I think can_an'' @ [0x17F] @ asc ''wer.'')) \<and>
   snd (RelevanceChecker_check example_tables
          \<lparr>primary_client =
             Some (always_succeeds (asc ''Partly, but I think can_an'' @ [0x17F] @ asc ''wer.'')),
           secondary_client = None\<rparr>
          (asc ''What is X?'') (retrieves one_document) 3) = Inr (asc ''CAN_ANSWER'')"
proof -
  let ?t = "asc ''Partly, but I think can_an'' @ [0x17F] @ asc ''wer.''"
  let ?self = "\<lparr>primary_client = Some (always_succeeds ?t), secondary_client = None\<rparr>"
  have d: "retrieves one_document (asc ''What is X?'') \<noteq> []"
    by (simp add: retrieves_def one_document_def)
  have h: "snd (RelevanceChecker_get_llm_response ?self
                  (relevance_prompt_of (asc ''What is X?'') (retrieves one_document) 3)) = Inr (Some ?t)"
    by (simp add: RelevanceChecker_get_llm_response_def always_succeeds_def)
  have c: "sublist (asc ''CAN_ANSWER'') (upper example_tables ?t)" by code_simp
  have p: "sublist (asc ''PART'') (upper example_tables ?t)" by code_simp
  from RelevanceChecker_check_CAN_ANSWER_first [OF d h, of example_tables] c
  have "snd (RelevanceChecker_check example_tables ?self (asc ''What is X?'')
               (retrieves one_document) 3) = Inr (asc ''CAN_ANSWER'')"
    by blast
  with d c p show ?thesis by blast
qed

text \<open>
  Claim C7: when the retriever returns no passage, \<open>RelevanceChecker.check\<close> returns
  NO_MATCH and has called no provider.
\<close>

theorem RelevanceChecker_check_no_documents:
  "retriever question = [] \<Longrightarrow>
   RelevanceChecker_check T self question retriever k = ([], Inr (asc ''NO_MATCH''))"
  by (simp add: RelevanceChecker_check_def)

theorem RelevanceChecker_check_no_documents_witness:
  "retrieves [] (asc ''What is X?'') = [] \<and>
   RelevanceChecker_check example_tables
     \<lparr>primary_client = Some (always_succeeds (asc ''CAN_ANSWER'')),
      secondary_client = Some (always_succeeds (asc ''CAN_ANSWER''))\<rparr>
     (asc ''What is X?'') (retrieves []) 3 = ([], Inr (asc ''NO_MATCH''))"
  using RelevanceChecker_check_no_documents
    [of "retrieves []" "asc ''What is X?''" example_tables
        "\<lparr>primary_client = Some (always_succeeds (asc ''CAN_ANSWER'')),
          secondary_client = Some (always_succeeds (asc ''CAN_ANSWER''))\<rparr>" 3]
  by (simp add: retrieves_def)

section \<open>The fallback calls\<close>

lemma RelevanceChecker_first_success:
  "first_success_wins RelevanceChecker_get_llm_response \<lparr>max_tokens = 1000, temperature = 0\<rparr> self prompt"
  by (auto simp: first_success_wins_def fallback_calls_def RelevanceChecker_get_llm_response_def Let_def
      RelevanceChecker_try_secondary_def split: option.splits sum.splits)

lemma ResearchAgent_first_success:
  "first_success_wins ResearchAgent_get_llm_response \<lparr>max_tokens = 4000, temperature = 3 / 10\<rparr> self prompt"
  by (auto simp: first_success_wins_def fallback_calls_def ResearchAgent_get_llm_response_def Let_def
      try_secondary_429_def split: option.splits sum.splits)

lemma VerificationAgent_first_success:
  "first_success_wins VerificationAgent_get_llm_response \<lparr>max_tokens = 3000, temperature = 0\<rparr> self prompt"
  by (auto simp: first_success_wins_def fallback_calls_def VerificationAgent_get_llm_response_def Let_def
      try_secondary_429_def split: option.splits sum.splits)

text \<open>
  Claim C8: in each stage the fallback call tries Primary, then Secondary, each at most
  once, and returns the first success without a further call; with a primary client that
  fails or is absent and a secondary client that succeeds, the result is the secondary
  client's.
\<close>

theorem fallback_first_success_wins:
  "first_success_wins RelevanceChecker_get_llm_response \<lparr>max_tokens = 1000, temperature = 0\<rparr> self prompt \<and>
   first_success_wins ResearchAgent_get_llm_response \<lparr>max_tokens = 4000, temperature = 3 / 10\<rparr> self prompt \<and>
   first_success_wins VerificationAgent_get_llm_response \<lparr>max_tokens = 3000, temperature = 0\<rparr> self prompt"
  by (simp add: RelevanceChecker_first_success ResearchAgent_first_success VerificationAgent_first_success)

theorem fallback_first_success_wins_witness:
  "RelevanceChecker_get_llm_response
     \<lparr>primary_client = Some (always_fails (asc ''Gemini Error: timeout'')),
      secondary_client = Some (always_succeeds (asc ''PARTIAL''))\<rparr> (asc ''prompt'')
     = ([Primary, Secondary], Inr (Some (asc ''PARTIAL''))) \<and>
   ResearchAgent_get_llm_response
     \<lparr>primary_client = Some (always_fails (asc ''Gemini Error: timeout'')),
      secondary_client = Some (always_succeeds (asc ''PARTIAL''))\<rparr> (asc ''prompt'')
     = ([Primary, Secondary], Inr (Some (asc ''PARTIAL''))) \<and>
   VerificationAgent_get_llm_response
     \<lparr>primary_client = Some (always_fails (asc ''Gemini Error: timeout'')),
      secondary_client = Some (always_succeeds (asc ''PARTIAL''))\<rparr> (asc ''prompt'')
     = ([Primary, Secondary], Inr (Some (asc ''PARTIAL''))) \<and>
   RelevanceChecker_get_llm_response
     \<lparr>primary_client = None, secondary_client = Some (always_succeeds (asc ''PARTIAL''))\<rparr>
     (asc ''prompt'') = ([Secondary], Inr (Some (asc ''PARTIAL''))) \<and>
   ResearchAgent_get_llm_response
     \<lparr>primary_client = None, secondary_client = Some (always_succeeds (asc ''PARTIAL''))\<rparr>
     (asc ''prompt'') = ([Secondary], Inr (Some (asc ''PARTIAL''))) \<and>
   VerificationAgent_get_llm_response
     \<lparr>primary_client = None, secondary_client = Some (always_succeeds (asc ''PARTIAL''))\<rparr>
     (asc ''prompt'') = ([Secondary], Inr (Some (asc ''PARTIAL'')))"
  using fallback_first_success_wins
    [of "\<lparr>primary_client = Some (always_fails (asc ''Gemini Error: timeout'')),
          secondary_client = Some (always_succeeds (asc ''PARTIAL''))\<rparr>" "asc ''prompt''"]
    fallback_first_success_wins
    [of "\<lparr>primary_client = None, secondary_client = Some (always_succeeds (asc ''PARTIAL''))\<rparr>"
        "asc ''prompt''"]
  by (simp add: first_success_wins_def always_fails_def always_succeeds_def)

lemma RelevanceChecker_exhausted:
  "every_provider_fails \<lparr>max_tokens = 1000, temperature = 0\<rparr> self prompt \<Longrightarrow>
   snd (RelevanceChecker_get_llm_response self prompt) =
     Inl (RuntimeError (asc ''All models failed to generate a response.''))"
  by (auto simp: every_provider_fails_def RelevanceChecker_get_llm_response_def Let_def
      RelevanceChecker_try_secondary_def split: option.splits sum.splits)

lemma try_secondary_429_exhausted:
  "(case secondary_client self of None \<Rightarrow> True | Some c \<Rightarrow> isl (c prompt cs)) \<Longrightarrow>
   snd (try_secondary_429 self prompt cs calls) =
     Inl (RuntimeError
       (if secondary_rate_limited cs self prompt
        then asc ''Rate limit reached. Please wait 60 seconds.''
        else asc ''No AI models are currently responding. Check your API keys.''))"
  by (auto simp: try_secondary_429_def secondary_rate_limited_def split: option.splits sum.splits)

lemma ResearchAgent_exhausted:
  "every_provider_fails \<lparr>max_tokens = 4000, temperature = 3 / 10\<rparr> self prompt \<Longrightarrow>
   snd (ResearchAgent_get_llm_response self prompt) =
     Inl (RuntimeError
       (if secondary_rate_limited \<lparr>max_tokens = 4000, temperature = 3 / 10\<rparr> self prompt
        then asc ''Rate limit reached. Please wait 60 seconds.''
        else asc ''No AI models are currently responding. Check your API keys.''))"
  unfolding every_provider_fails_def ResearchAgent_get_llm_response_def Let_def
  by (auto simp: try_secondary_429_exhausted split: option.splits sum.splits)

lemma VerificationAgent_exhausted:
  "every_provider_fails \<lparr>max_tokens = 3000, temperature = 0\<rparr> self prompt \<Longrightarrow>
   snd (VerificationAgent_get_llm_response self prompt) =
     Inl (RuntimeError
       (if secondary_rate_limited \<lparr>max_tokens = 3000, temperature = 0\<rparr> self prompt
        then asc ''Rate limit reached. Please wait 60 seconds.''
        else asc ''No AI models are currently responding. Check your API keys.''))"
  unfolding every_provider_fails_def VerificationAgent_get_llm_response_def Let_def
  by (auto simp: try_secondary_429_exhausted split: option.splits sum.splits)

lemma rate_limit_message_differs:
  "asc ''Rate limit reached. Please wait 60 seconds.'' \<noteq>
     asc ''No AI models are currently responding. Check your API keys.''"
  by (simp add: asc_eq_iff)

text \<open>
  Claim C9, as stated, fails: in \<open>VerificationAgent\<close> (and \<open>ResearchAgent\<close>), when the
  secondary client fails with a text that contains 429, the fallback call raises the
  rate-limit error, not the exhaustion error.
\<close>

theorem fallback_exhaustion_counterexample:
  "every_provider_fails \<lparr>max_tokens = 3000, temperature = 0\<rparr>
     \<lparr>primary_client = None, secondary_client = Some (always_fails (asc ''OpenAI Error: 429''))\<rparr>
     (asc ''prompt'') \<and>
   snd (VerificationAgent_get_llm_response
          \<lparr>primary_client = None, secondary_client = Some (always_fails (asc ''OpenAI Error: 429''))\<rparr>
          (asc ''prompt'')) = Inl (RuntimeError (asc ''Rate limit reached. Please wait 60 seconds.'')) \<and>
   asc ''Rate limit reached. Please wait 60 seconds.'' \<noteq>
     asc ''No AI models are currently responding. Check your API keys.''"
proof -
  have "sublist (asc ''429'') (asc ''OpenAI Error: 429'')" by code_simp
  then show ?thesis
    by (simp add: every_provider_fails_def VerificationAgent_get_llm_response_def
        try_secondary_429_def always_fails_def rate_limit_message_differs)
qed

text \<open>
  Claim C9, amended: when no provider is initialised or every initialised provider
  fails, the fallback call returns no text and raises a \<open>RuntimeError\<close>: in
  \<open>RelevanceChecker\<close> the exhaustion error; in \<open>ResearchAgent\<close> and
  \<open>VerificationAgent\<close> the exhaustion error, unless the secondary client failed with a
  text that contains 429, when it is the rate-limit error.
\<close>

theorem fallback_exhaustion:
  "(every_provider_fails \<lparr>max_tokens = 1000, temperature = 0\<rparr> self prompt \<longrightarrow>
      snd (RelevanceChecker_get_llm_response self prompt) =
        Inl (RuntimeError (asc ''All models failed to generate a response.''))) \<and>
   (every_provider_fails \<lparr>max_tokens = 4000, temperature = 3 / 10\<rparr> self prompt \<longrightarrow>
      snd (ResearchAgent_get_llm_response self prompt) =
        Inl (RuntimeError
          (if secondary_rate_limited \<lparr>max_tokens = 4000, temperature = 3 / 10\<rparr> self prompt
           then asc ''Rate limit reached. Please wait 60 seconds.''
           else asc ''No AI models are currently responding. Check your API keys.''))) \<and>
   (every_provider_fails \<lparr>max_tokens = 3000, temperature = 0\<rparr> self prompt \<longrightarrow>
      snd (VerificationAgent_get_llm_response self prompt) =
        Inl (RuntimeError
          (if secondary_rate_limited \<lparr>max_tokens = 3000, temperature = 0\<rparr> self prompt
           then asc ''Rate limit reached. Please wait 60 seconds.''
           else asc ''No AI models are currently responding. Check your API keys.'')))"
  by (simp add: RelevanceChecker_exhausted ResearchAgent_exhausted VerificationAgent_exhausted)

theorem fallback_exhaustion_witness:
  "every_provider_fails \<lparr>max_tokens = 1000, temperature = 0\<rparr>
     \<lparr>primary_client = None, secondary_client = None\<rparr> (asc ''prompt'') \<and>
   every_provider_fails \<lparr>max_tokens = 4000, temperature = 3 / 10\<rparr>
     \<lparr>primary_client = None, secondary_client = None\<rparr> (asc ''prompt'') \<and>
   every_provider_fails \<lparr>max_tokens = 3000, temperature = 0\<rparr>
     \<lparr>primary_client = None, secondary_client = None\<rparr> (asc ''prompt'') \<and>
   snd (RelevanceChecker_get_llm_response \<lparr>primary_client = None, secondary_client = None\<rparr>
          (asc ''prompt''))
     = Inl (RuntimeError (asc ''All models failed to generate a response.'')) \<and>
   snd (ResearchAgent_get_llm_response \<lparr>primary_client = None, secondary_client = None\<rparr>
          (asc ''prompt''))
     = Inl (RuntimeError (asc ''No AI models are currently responding. Check your API keys.'')) \<and>
   snd (VerificationAgent_get_llm_response \<lparr>primary_client = None, secondary_client = None\<rparr>
          (asc ''prompt''))
     = Inl (RuntimeError (asc ''No AI models are currently responding. Check your API keys.''))"
  using fallback_exhaustion [of "\<lparr>primary_client = None, secondary_client = None\<rparr>" "asc ''prompt''"]
  by (simp add: every_provider_fails_def secondary_rate_limited_def)

text \<open>
  Claim C4, as stated, fails for the relevance stage: its fallback call raises the same
  exhaustion error whether or not the last failure contains 429, and \<open>check\<close> turns that
  error into NO_MATCH.
\<close>

theorem rate_limit_counterexample:
  "sublist (asc ''429'') (str_exn (RuntimeError (asc ''OpenAI Error: 429 Too Many Requests''))) \<and>
   snd (RelevanceChecker_get_llm_response
          \<lparr>primary_client = None,
           secondary_client = Some (always_fails (asc ''OpenAI Error: 429 Too Many Requests''))\<rparr>
          (asc ''prompt'')) = Inl (RuntimeError (asc ''All models failed to generate a response.'')) \<and>
   snd (RelevanceChecker_get_llm_response
          \<lparr>primary_client = None,
           secondary_client = Some (always_fails (asc ''OpenAI Error: timeout''))\<rparr>
          (asc ''prompt'')) = Inl (RuntimeError (asc ''All models failed to generate a response.'')) \<and>
   snd (RelevanceChecker_check example_tables
          \<lparr>primary_client = None,
           secondary_client = Some (always_fails (asc ''OpenAI Error: 429 Too Many Requests''))\<rparr>
          (asc ''What is X?'') (retrieves one_document) 3) = Inr (asc ''NO_MATCH'')"
proof -
  have "sublist (asc ''429'') (asc ''OpenAI Error: 429 Too Many Requests'')" by code_simp
  then show ?thesis
    by (simp add: RelevanceChecker_check_def RelevanceChecker_get_llm_response_def
        RelevanceChecker_try_secondary_def always_fails_def retrieves_def one_document_def)
qed

text \<open>
  Claim C4, amended: in the drafting and the verification stage, when every provider
  is absent or fails and the secondary client's failure contains 429, the fallback call
  raises to its caller the error that asks to wait 60 seconds, which is not the
  exhaustion error; the fallback call of the relevance stage raises the exhaustion error
  on every failure.
\<close>

theorem rate_limit_error:
  "(every_provider_fails \<lparr>max_tokens = 4000, temperature = 3 / 10\<rparr> self prompt \<and>
    secondary_rate_limited \<lparr>max_tokens = 4000, temperature = 3 / 10\<rparr> self prompt \<longrightarrow>
      snd (ResearchAgent_get_llm_response self prompt) =
        Inl (RuntimeError (asc ''Rate limit reached. Please wait 60 seconds.''))) \<and>
   (every_provider_fails \<lparr>max_tokens = 3000, temperature = 0\<rparr> self prompt \<and>
    secondary_rate_limited \<lparr>max_tokens = 3000, temperature = 0\<rparr> self prompt \<longrightarrow>
      snd (VerificationAgent_get_llm_response self prompt) =
        Inl (RuntimeError (asc ''Rate limit reached. Please wait 60 seconds.''))) \<and>
   (every_provider_fails \<lparr>max_tokens = 1000, temperature = 0\<rparr> self prompt \<longrightarrow>
      snd (RelevanceChecker_get_llm_response self prompt) =
        Inl (RuntimeError (asc ''All models failed to generate a response.''))) \<and>
   asc ''Rate limit reached. Please wait 60 seconds.'' \<noteq>
     asc ''No AI models are currently responding. Check your API keys.''"
  by (simp add: RelevanceChecker_exhausted ResearchAgent_exhausted VerificationAgent_exhausted
      rate_limit_message_differs)

theorem rate_limit_error_witness:
  "every_provider_fails \<lparr>max_tokens = 4000, temperature = 3 / 10\<rparr>
     \<lparr>primary_client = Some (always_fails (asc ''Gemini Error: 503'')),
      secondary_client = Some (always_fails (asc ''OpenAI Error: 429 Too Many Requests''))\<rparr>
     (asc ''prompt'') \<and>
   secondary_rate_limited \<lparr>max_tokens = 4000, temperature = 3 / 10\<rparr>
     \<lparr>primary_client = Some (always_fails (asc ''Gemini Error: 503'')),
      secondary_client = Some (always_fails (asc ''OpenAI Error: 429 Too Many Requests''))\<rparr>
     (asc ''prompt'') \<and>
   every_provider_fails \<lparr>max_tokens = 3000, temperature = 0\<rparr>
     \<lparr>primary_client = Some (always_fails (asc ''Gemini Error: 503'')),
      secondary_client = Some (always_fails (asc ''OpenAI Error: 429 Too Many Requests''))\<rparr>
     (asc ''prompt'') \<and>
   secondary_rate_limited \<lparr>max_tokens = 3000, temperature = 0\<rparr>
     \<lparr>primary_client = Some (always_fails (asc ''Gemini Error: 503'')),
      secondary_client = Some (always_fails (asc ''OpenAI Error: 429 Too Many Requests''))\<rparr>
     (asc ''prompt'') \<and>
   snd (ResearchAgent_get_llm_response
          \<lparr>primary_client = Some (always_fails (asc ''Gemini Error: 503'')),
           secondary_client = Some (always_fails (asc ''OpenAI Error: 429 Too Many Requests''))\<rparr>
          (asc ''prompt''))
     = Inl (RuntimeError (asc ''Rate limit reached. Please wait 60 seconds.'')) \<and>
   snd (VerificationAgent_get_llm_response
          \<lparr>primary_client = Some (always_fails (asc ''Gemini Error: 503'')),
           secondary_client = Some (always_fails (asc ''OpenAI Error: 429 Too Many Requests''))\<rparr>
          (asc ''prompt''))
     = Inl (RuntimeError (asc ''Rate limit reached. Please wait 60 seconds.''))"
proof -
  have s: "sublist (asc ''429'') (asc ''OpenAI Error: 429 Too Many Requests'')" by code_simp
  show ?thesis
    using rate_limit_error
      [of "\<lparr>primary_client = Some (always_fails (asc ''Gemini Error: 503'')),
            secondary_client = Some (always_fails (asc ''OpenAI Error: 429 Too Many Requests''))\<rparr>"
          "asc ''prompt''"] s
    by (simp add: every_provider_fails_def secondary_rate_limited_def always_fails_def)
qed

section \<open>The verification report\<close>

lemma parse_line_shape: "parsed_shape T v \<Longrightarrow> parsed_shape T (parse_line T v line)"
  by (auto simp: parse_line_def Let_def parsed_shape_def upper_str_or_none_def list_or_none_def
      asc_eq_iff)

lemma parse_lines_shape: "parsed_shape T v \<Longrightarrow> parsed_shape T (foldl (parse_line T) v ls)"
  by (induction ls arbitrary: v) (simp_all add: parse_line_shape)

lemma parsed_shape_empty: "parsed_shape T Map.empty"
  by (simp add: parsed_shape_def upper_str_or_none_def list_or_none_def)

lemma ensure_key_other: "k' \<noteq> k \<Longrightarrow> ensure_key v k k' = v k'"
  by (auto simp: ensure_key_def)

lemma ensure_key_same:
  "ensure_key v k k =
     Some (case v k of
             Some x \<Rightarrow> x
           | None \<Rightarrow>
               if k \<in> set [asc ''Unsupported Claims'', asc ''Contradictions''] then Lst []
               else if k = asc ''Additional Details'' then Str []
               else Str (asc ''NO''))"
  by (simp add: ensure_key_def split: option.splits)

lemma ensured_Supported:
  "foldl ensure_key v canonical_keys (asc ''Supported'') =
     Some (case v (asc ''Supported'') of Some x \<Rightarrow> x | None \<Rightarrow> Str (asc ''NO''))"
  by (simp add: canonical_keys_def ensure_key_other ensure_key_same asc_eq_iff)

lemma ensured_Unsupported_Claims:
  "foldl ensure_key v canonical_keys (asc ''Unsupported Claims'') =
     Some (case v (asc ''Unsupported Claims'') of Some x \<Rightarrow> x | None \<Rightarrow> Lst [])"
  by (simp add: canonical_keys_def ensure_key_other ensure_key_same asc_eq_iff)

lemma ensured_Contradictions:
  "foldl ensure_key v canonical_keys (asc ''Contradictions'') =
     Some (case v (asc ''Contradictions'') of Some x \<Rightarrow> x | None \<Rightarrow> Lst [])"
  by (simp add: canonical_keys_def ensure_key_other ensure_key_same asc_eq_iff)

lemma ensured_Relevant:
  "foldl ensure_key v canonical_keys (asc ''Relevant'') =
     Some (case v (asc ''Relevant'') of Some x \<Rightarrow> x | None \<Rightarrow> Str (asc ''NO''))"
  by (simp add: canonical_keys_def ensure_key_other ensure_key_same asc_eq_iff)

lemma ensured_Additional_Details:
  "foldl ensure_key v canonical_keys (asc ''Additional Details'') =
     Some (case v (asc ''Additional Details'') of Some x \<Rightarrow> x | None \<Rightarrow> Str [])"
  by (simp add: canonical_keys_def ensure_key_other ensure_key_same asc_eq_iff)

lemma upper_str_or_noneD:
  "upper_str_or_none T x \<Longrightarrow>
   \<exists>w. (case x of Some y \<Rightarrow> y | None \<Rightarrow> Str (asc ''NO'')) = Str (upper T w)"
proof (cases x)
  case None
  have "Str (asc ''NO'') = Str (upper T (asc ''NO''))" by (simp add: upper_NO)
  with None show ?thesis by auto
next
  case (Some y)
  assume "upper_str_or_none T x"
  with Some show ?thesis by (cases y) (auto simp: upper_str_or_none_def)
qed

lemma list_or_noneD:
  "list_or_none x \<Longrightarrow> \<exists>xs. (case x of Some y \<Rightarrow> y | None \<Rightarrow> Lst []) = Lst xs"
  by (auto simp: list_or_none_def split: option.splits pyval.splits)

lemma parse_verification_response_shape:
  "\<exists>r w1 xs w2.
     parse_verification_response T t = Some r \<and>
     r (asc ''Supported'') = Some (Str (upper T w1)) \<and>
     r (asc ''Unsupported Claims'') = Some (Lst []) \<and>
     r (asc ''Contradictions'') = Some (Lst xs) \<and>
     r (asc ''Relevant'') = Some (Str (upper T w2)) \<and>
     r (asc ''Additional Details'') = Some (Str [])"
proof -
  let ?v = "foldl (parse_line T) Map.empty (split_char 10 t)"
  let ?r = "foldl ensure_key ?v canonical_keys"
  have v: "parsed_shape T ?v" by (rule parse_lines_shape[OF parsed_shape_empty])
  have r: "parse_verification_response T t = Some ?r"
    by (simp add: parse_verification_response_def Let_def)
  from v obtain w1 where w1: "?r (asc ''Supported'') = Some (Str (upper T w1))"
    using upper_str_or_noneD[of T "?v (asc ''Supported'')"]
    by (auto simp: parsed_shape_def ensured_Supported)
  from v obtain w2 where w2: "?r (asc ''Relevant'') = Some (Str (upper T w2))"
    using upper_str_or_noneD[of T "?v (asc ''Relevant'')"]
    by (auto simp: parsed_shape_def ensured_Relevant)
  from v obtain xs where xs: "?r (asc ''Contradictions'') = Some (Lst xs)"
    using list_or_noneD[of "?v (asc ''Contradictions'')"]
    by (auto simp: parsed_shape_def ensured_Contradictions)
  from v have u: "?r (asc ''Unsupported Claims'') = Some (Lst [])"
    by (simp add: parsed_shape_def ensured_Unsupported_Claims)
  from v have d: "?r (asc ''Additional Details'') = Some (Str [])"
    by (simp add: parsed_shape_def ensured_Additional_Details)
  from r w1 w2 xs u d show ?thesis by blast
qed

lemma default_report_shape: "report_shape (default_report note)"
  by (simp add: report_shape_def default_report_def asc_eq_iff)

lemma parsed_report_shape:
  "\<exists>r. parse_verification_response T s = Some r \<and> report_shape r"
proof -
  obtain r w1 xs w2 where
    "parse_verification_response T s = Some r"
    "r (asc ''Supported'') = Some (Str (upper T w1))" "r (asc ''Unsupported Claims'') = Some (Lst [])"
    "r (asc ''Contradictions'') = Some (Lst xs)" "r (asc ''Relevant'') = Some (Str (upper T w2))"
    "r (asc ''Additional Details'') = Some (Str [])"
    using parse_verification_response_shape[of T s] by blast
  then show ?thesis by (simp add: report_shape_def)
qed

lemma verification_report_of_shape: "report_shape (verification_report_of T llm_response)"
proof (cases llm_response)
  case None
  then show ?thesis by (simp add: verification_report_of_def default_report_shape)
next
  case (Some resp)
  obtain r where "parse_verification_response T (sanitize_response resp) = Some r" "report_shape r"
    using parsed_report_shape[of T "sanitize_response resp"] by blast
  with Some show ?thesis
    by (simp add: verification_report_of_def Let_def default_report_shape)
qed

lemma format_verification_report_layout:
  "\<exists>a b c d e.
     format_verification_report r =
       asc ''**Supported:** '' @ a @ newline @
       asc ''**Unsupported Claims:** '' @ b @ newline @
       asc ''**Contradictions:** '' @ c @ newline @
       asc ''**Relevant:** '' @ d @ newline @
       asc ''**Additional Details:** '' @ e @ newline"
proof -
  let ?u = "py_get r (asc ''Unsupported Claims'') (Lst [])"
  let ?c = "py_get r (asc ''Contradictions'') (Lst [])"
  let ?d = "py_get r (asc ''Additional Details'') (Str [])"
  have "format_verification_report r =
       asc ''**Supported:** '' @ py_format (py_get r (asc ''Supported'') (Str (asc ''NO''))) @ newline @
       asc ''**Unsupported Claims:** '' @
         (if py_truthy ?u then py_join (asc '', '') ?u else asc ''None'') @ newline @
       asc ''**Contradictions:** '' @
         (if py_truthy ?c then py_join (asc '', '') ?c else asc ''None'') @ newline @
       asc ''**Relevant:** '' @ py_format (py_get r (asc ''Relevant'') (Str (asc ''NO''))) @ newline @
       asc ''**Additional Details:** '' @ (if py_truthy ?d then py_format ?d else asc ''None'') @ newline"
    by (simp add: format_verification_report_def Let_def asc_def)
  then show ?thesis by blast
qed

lemma VerificationAgent_check_cases:
  "snd (VerificationAgent_check T self answer documents) =
     (case snd (VerificationAgent_get_llm_response self (verification_prompt_of answer documents)) of
        Inl e \<Rightarrow> Inl (RuntimeError (asc ''Failed to verify answer due to a model error.''))
      | Inr resp \<Rightarrow>
          Inr (format_verification_report (verification_report_of T resp),
               join (newline @ newline) (map page_content documents)))"
  by (simp add: VerificationAgent_check_def verification_prompt_of_def Let_def
      split: prod.splits sum.splits)

text \<open>
  Claim C1, as stated, fails: with both providers absent, \<open>VerificationAgent.check\<close>
  raises \<open>RuntimeError("Failed to verify answer due to a model error.")\<close> and returns no
  report.
\<close>

theorem VerificationAgent_check_counterexample:
  "snd (VerificationAgent_check example_tables \<lparr>primary_client = None, secondary_client = None\<rparr>
          (asc ''X is 42.'') one_document)
     = Inl (RuntimeError (asc ''Failed to verify answer due to a model error.''))"
  by (simp add: VerificationAgent_check_def VerificationAgent_get_llm_response_def
      try_secondary_429_def Let_def)

text \<open>
  Claim C1, amended: the report \<open>check\<close> builds from any value of the model has all
  five fields, with their values or their defaults; whenever a provider returns,
  \<open>check\<close> returns that report, formatted in five labelled lines, with the context;
  when every provider is absent or fails, \<open>check\<close> raises its \<open>RuntimeError\<close>.
\<close>

theorem VerificationAgent_check_report:
  "report_shape (verification_report_of T llm_response) \<and>
   (\<forall>resp. snd (VerificationAgent_get_llm_response self (verification_prompt_of answer documents))
             = Inr resp \<longrightarrow>
      snd (VerificationAgent_check T self answer documents) =
        Inr (format_verification_report (verification_report_of T resp),
             join (newline @ newline) (map page_content documents)) \<and>
      (\<exists>a b c d e.
         format_verification_report (verification_report_of T resp) =
           asc ''**Supported:** '' @ a @ newline @
           asc ''**Unsupported Claims:** '' @ b @ newline @
           asc ''**Contradictions:** '' @ c @ newline @
           asc ''**Relevant:** '' @ d @ newline @
           asc ''**Additional Details:** '' @ e @ newline)) \<and>
   (\<forall>e. snd (VerificationAgent_get_llm_response self (verification_prompt_of answer documents))
          = Inl e \<longrightarrow>
      snd (VerificationAgent_check T self answer documents) =
        Inl (RuntimeError (asc ''Failed to verify answer due to a model error.'')))"
proof (intro conjI allI impI)
  show "report_shape (verification_report_of T llm_response)"
    by (rule verification_report_of_shape)
next
  fix resp
  assume "snd (VerificationAgent_get_llm_response self (verification_prompt_of answer documents))
             = Inr resp"
  then show "snd (VerificationAgent_check T self answer documents) =
        Inr (format_verification_report (verification_report_of T resp),
             join (newline @ newline) (map page_content documents))"
    by (simp add: VerificationAgent_check_cases)
next
  fix resp
  show "\<exists>a b c d e.
         format_verification_report (verification_report_of T resp) =
           asc ''**Supported:** '' @ a @ newline @
           asc ''**Unsupported Claims:** '' @ b @ newline @
           asc ''**Contradictions:** '' @ c @ newline @
           asc ''**Relevant:** '' @ d @ newline @
           asc ''**Additional Details:** '' @ e @ newline"
    by (rule format_verification_report_layout)
next
  fix e
  assume "snd (VerificationAgent_get_llm_response self (verification_prompt_of answer documents))
          = Inl e"
  then show "snd (VerificationAgent_check T self answer documents) =
        Inl (RuntimeError (asc ''Failed to verify answer due to a model error.''))"
    by (simp add: VerificationAgent_check_cases)
qed

theorem VerificationAgent_check_report_witness:
  "snd (VerificationAgent_get_llm_response
          \<lparr>primary_client =
             Some (always_succeeds (asc ''Supported: YES'' @ newline @ asc ''Relevant: YES'')),
           secondary_client = None\<rparr>
          (verification_prompt_of (asc ''X is 42.'') one_document))
     = Inr (Some (asc ''Supported: YES'' @ newline @ asc ''Relevant: YES'')) \<and>
   snd (VerificationAgent_check example_tables
          \<lparr>primary_client =
             Some (always_succeeds (asc ''Supported: YES'' @ newline @ asc ''Relevant: YES'')),
           secondary_client = None\<rparr>
          (asc ''X is 42.'') one_document)
     = Inr (asc ''**Supported:** YES'' @ newline @ asc ''**Unsupported Claims:** None'' @ newline @
            asc ''**Contradictions:** None'' @ newline @ asc ''**Relevant:** YES'' @ newline @
            asc ''**Additional Details:** None'' @ newline,
            asc ''X is 42.'')"
proof -
  let ?resp = "asc ''Supported: YES'' @ newline @ asc ''Relevant: YES''"
  let ?self = "\<lparr>primary_client = Some (always_succeeds ?resp), secondary_client = None\<rparr>"
  have h: "snd (VerificationAgent_get_llm_response ?self
                  (verification_prompt_of (asc ''X is 42.'') one_document)) = Inr (Some ?resp)"
    by (simp add: VerificationAgent_get_llm_response_def always_succeeds_def)
  have f: "format_verification_report (verification_report_of example_tables (Some ?resp)) =
             asc ''**Supported:** YES'' @ newline @ asc ''**Unsupported Claims:** None'' @ newline @
             asc ''**Contradictions:** None'' @ newline @ asc ''**Relevant:** YES'' @ newline @
             asc ''**Additional Details:** None'' @ newline"
    by code_simp
  have j: "join (newline @ newline) (map page_content one_document) = asc ''X is 42.''"
    by (simp add: one_document_def)
  from VerificationAgent_check_report [of example_tables "Some ?resp" ?self "asc ''X is 42.''" one_document] h
  have "snd (VerificationAgent_check example_tables ?self (asc ''X is 42.'') one_document) =
          Inr (format_verification_report (verification_report_of example_tables (Some ?resp)),
               join (newline @ newline) (map page_content one_document))"
    by blast
  with h f j show ?thesis by simp
qed

text \<open>
  Claim C2, at the response \<open>Unsupported Claims: [a, "b", c]\<close>: the parser stores the
  list a, b, c under the key \<open>Unsupported claims\<close>, the result of \<open>capitalize\<close>, and the
  loop over the keys then puts the empty list under \<open>Unsupported Claims\<close>, the key the
  report is read by; the formatted report says None. The sequence the claim expects
  under the Unsupported Claims field is not there.
\<close>

theorem parse_Unsupported_Claims_dropped:
  "map_option (\<lambda>r. (r (asc ''Unsupported Claims''), r (asc ''Unsupported claims'')))
     (parse_verification_response T
        (asc ''Unsupported Claims: [a, '' @ [34] @ asc ''b'' @ [34] @ asc '', c]''))
     = Some (Some (Lst []), Some (Lst [asc ''a'', asc ''b'', asc ''c''])) \<and>
   format_verification_report
     (verification_report_of T
        (Some (asc ''Unsupported Claims: [a, '' @ [34] @ asc ''b'' @ [34] @ asc '', c]'')))
     = asc ''**Supported:** NO'' @ newline @ asc ''**Unsupported Claims:** None'' @ newline @
       asc ''**Contradictions:** None'' @ newline @ asc ''**Relevant:** NO'' @ newline @
       asc ''**Additional Details:** None'' @ newline"
  by code_simp

text \<open>
  For every response, the parsed report has the empty list under \<open>Unsupported Claims\<close>
  and the empty string under \<open>Additional Details\<close>.
\<close>

lemma parse_Unsupported_Claims_always_empty:
  "\<exists>r. parse_verification_response T t = Some r \<and>
        r (asc ''Unsupported Claims'') = Some (Lst []) \<and>
        r (asc ''Additional Details'') = Some (Str [])"
  using parse_verification_response_shape[of T t] by blast

text \<open>
  Claim C10: a line whose key parses to Supported or Relevant stores the upper case of
  its value; a line for the details stores its value as it is, and a line for a list
  stores the items of its value as they are; so the Supported and the Relevant of every
  parsed report are upper-cased.
\<close>

theorem parse_line_upper_cases_verdicts:
  "(58 \<in> set line \<and> line_key T line \<in> set [asc ''Supported'', asc ''Relevant''] \<longrightarrow>
      parse_line T v line (line_key T line) = Some (Str (upper T (line_value line)))) \<and>
   (58 \<in> set line \<and> line_key T line = asc ''Additional details'' \<longrightarrow>
      parse_line T v line (line_key T line) = Some (Str (line_value line))) \<and>
   (58 \<in> set line \<and> line_key T line \<in> set [asc ''Unsupported claims'', asc ''Contradictions''] \<longrightarrow>
      parse_line T v line (line_key T line) =
        Some (Lst (if bracketed (line_value line) then list_items (line_value line) else []))) \<and>
   (\<exists>r w1 w2. parse_verification_response T t = Some r \<and>
      r (asc ''Supported'') = Some (Str (upper T w1)) \<and>
      r (asc ''Relevant'') = Some (Str (upper T w2)))"
proof (intro conjI impI)
  assume "58 \<in> set line \<and> line_key T line \<in> set [asc ''Supported'', asc ''Relevant'']"
  then show "parse_line T v line (line_key T line) = Some (Str (upper T (line_value line)))"
    by (auto simp: parse_line_def Let_def asc_eq_iff)
next
  assume "58 \<in> set line \<and> line_key T line = asc ''Additional details''"
  then show "parse_line T v line (line_key T line) = Some (Str (line_value line))"
    by (simp add: parse_line_def Let_def asc_eq_iff)
next
  assume "58 \<in> set line \<and> line_key T line \<in> set [asc ''Unsupported claims'', asc ''Contradictions'']"
  then show "parse_line T v line (line_key T line) =
        Some (Lst (if bracketed (line_value line) then list_items (line_value line) else []))"
    by (auto simp: parse_line_def Let_def asc_eq_iff)
next
  show "\<exists>r w1 w2. parse_verification_response T t = Some r \<and>
      r (asc ''Supported'') = Some (Str (upper T w1)) \<and>
      r (asc ''Relevant'') = Some (Str (upper T w2))"
    using parse_verification_response_shape[of T t] by blast
qed

theorem parse_line_upper_cases_verdicts_witness:
  "58 \<in> set (asc ''Supported:'' @ [0xA0] @ asc ''n'' @ [0xE9]) \<and>
   line_key example_tables (asc ''Supported:'' @ [0xA0] @ asc ''n'' @ [0xE9])
     \<in> set [asc ''Supported'', asc ''Relevant''] \<and>
   parse_line example_tables Map.empty (asc ''Supported:'' @ [0xA0] @ asc ''n'' @ [0xE9])
     (asc ''Supported'') = Some (Str (asc ''N'' @ [0xC9])) \<and>
   parse_line example_tables Map.empty (asc ''Supported: yes'') (asc ''Supported'')
     = Some (Str (asc ''YES'')) \<and>
   58 \<in> set (asc ''contradictions: [x, y]'') \<and>
   line_key example_tables (asc ''contradictions: [x, y]'')
     \<in> set [asc ''Unsupported claims'', asc ''Contradictions''] \<and>
   parse_line example_tables Map.empty (asc ''contradictions: [x, y]'') (asc ''Contradictions'')
     = Some (Lst [asc ''x'', asc ''y'']) \<and>
   format_verification_report (verification_report_of example_tables (Some (asc ''Supported: yes''))) =
     asc ''**Supported:** YES'' @ newline @ asc ''**Unsupported Claims:** None'' @ newline @
     asc ''**Contradictions:** None'' @ newline @ asc ''**Relevant:** NO'' @ newline @
     asc ''**Additional Details:** None'' @ newline"
proof -
  let ?l0 = "asc ''Supported:'' @ [0xA0] @ asc ''n'' @ [0xE9]"
  let ?l1 = "asc ''Supported: yes''"
  let ?l2 = "asc ''contradictions: [x, y]''"
  have c0: "58 \<in> set ?l0" by code_simp
  have k0: "line_key example_tables ?l0 = asc ''Supported''" by code_simp
  have v0: "upper example_tables (line_value ?l0) = asc ''N'' @ [0xC9]" by code_simp
  have c1: "58 \<in> set ?l1" by code_simp
  have k1: "line_key example_tables ?l1 = asc ''Supported''" by code_simp
  have v1: "upper example_tables (line_value ?l1) = asc ''YES''" by code_simp
  have c2: "58 \<in> set ?l2" by code_simp
  have k2: "line_key example_tables ?l2 = asc ''Contradictions''" by code_simp
  have v2: "(if bracketed (line_value ?l2) then list_items (line_value ?l2) else [])
              = [asc ''x'', asc ''y'']"
    by code_simp
  have f: "format_verification_report (verification_report_of example_tables (Some ?l1)) =
     asc ''**Supported:** YES'' @ newline @ asc ''**Unsupported Claims:** None'' @ newline @
     asc ''**Contradictions:** None'' @ newline @ asc ''**Relevant:** NO'' @ newline @
     asc ''**Additional Details:** None'' @ newline"
    by code_simp
  from parse_line_upper_cases_verdicts [of ?l0 example_tables Map.empty] c0 k0 v0
  have p0: "parse_line example_tables Map.empty ?l0 (asc ''Supported'') = Some (Str (asc ''N'' @ [0xC9]))"
    by simp
  from parse_line_upper_cases_verdicts [of ?l1 example_tables Map.empty] c1 k1 v1
  have p1: "parse_line example_tables Map.empty ?l1 (asc ''Supported'') = Some (Str (asc ''YES''))"
    by simp
  from parse_line_upper_cases_verdicts [of ?l2 example_tables Map.empty] c2 k2 v2
  have p2: "parse_line example_tables Map.empty ?l2 (asc ''Contradictions'')
              = Some (Lst [asc ''x'', asc ''y''])"
    by simp
  have m0: "line_key example_tables ?l0 \<in> set [asc ''Supported'', asc ''Relevant'']"
    using k0 by simp
  have m2: "line_key example_tables ?l2 \<in> set [asc ''Unsupported claims'', asc ''Contradictions'']"
    using k2 by simp
  from c0 m0 p0 p1 c2 m2 p2 f show ?thesis by blast
qed

section \<open>ResearchAgent: the draft\<close>

lemma ResearchAgent_generate_cases:
  "snd (ResearchAgent_generate self question documents) =
     (case snd (ResearchAgent_get_llm_response self (research_prompt_of question documents)) of
        Inl e \<Rightarrow> Inl (RuntimeError (asc ''Failed to generate answer due to a model error.''))
      | Inr raw_answer \<Rightarrow>
          Inr (case raw_answer of
                 Some text \<Rightarrow>
                   if text \<noteq> [] then strip text else asc ''I cannot answer this question.''
               | None \<Rightarrow> asc ''I cannot answer this question.'',
               join (newline @ newline) (map page_content documents)))"
  by (simp add: ResearchAgent_generate_def research_prompt_of_def sanitize_response_def Let_def
      split: prod.splits sum.splits option.splits)

text \<open>
  Claim C5, as stated, fails: with both providers absent, \<open>ResearchAgent.generate\<close>
  raises \<open>RuntimeError("Failed to generate answer due to a model error.")\<close> and returns
  no draft.
\<close>

theorem ResearchAgent_generate_counterexample:
  "snd (ResearchAgent_generate \<lparr>primary_client = None, secondary_client = None\<rparr>
          (asc ''What is X?'') one_document)
     = Inl (RuntimeError (asc ''Failed to generate answer due to a model error.''))"
  by (simp add: ResearchAgent_generate_def ResearchAgent_get_llm_response_def
      try_secondary_429_def Let_def)

text \<open>
  Claim C5, amended: whenever a provider returns, \<open>generate\<close> returns a draft with
  the context: the fixed sentence "I cannot answer this question." when the value is
  \<open>None\<close> or the empty string, and the text without its leading and trailing whitespace
  when that is not empty; when every provider is absent or fails, \<open>generate\<close> raises
  its \<open>RuntimeError\<close>.
\<close>

theorem ResearchAgent_generate_draft:
  "(\<forall>raw. snd (ResearchAgent_get_llm_response self (research_prompt_of question documents)) = Inr raw
      \<longrightarrow> (\<exists>draft. snd (ResearchAgent_generate self question documents) =
                     Inr (draft, join (newline @ newline) (map page_content documents)) \<and>
                   (raw = None \<or> raw = Some [] \<longrightarrow> draft = asc ''I cannot answer this question.'') \<and>
                   (\<forall>s. raw = Some s \<and> strip s \<noteq> [] \<longrightarrow>
                      draft = strip s \<and> \<not> is_space (hd draft) \<and> \<not> is_space (last draft)))) \<and>
   (\<forall>e. snd (ResearchAgent_get_llm_response self (research_prompt_of question documents)) = Inl e
      \<longrightarrow> snd (ResearchAgent_generate self question documents) =
            Inl (RuntimeError (asc ''Failed to generate answer due to a model error.'')))"
  using strip_trimmed strip_Nil
  by (auto simp: ResearchAgent_generate_cases split: option.splits)

theorem ResearchAgent_generate_draft_witness:
  "snd (ResearchAgent_get_llm_response
          \<lparr>primary_client = Some (always_succeeds ([0xA0] @ asc '' X is 42. '' @ [0xA0])),
           secondary_client = None\<rparr>
          (research_prompt_of (asc ''What is X?'') one_document))
     = Inr (Some ([0xA0] @ asc '' X is 42. '' @ [0xA0])) \<and>
   strip ([0xA0] @ asc '' X is 42. '' @ [0xA0]) \<noteq> [] \<and>
   snd (ResearchAgent_generate
          \<lparr>primary_client = Some (always_succeeds ([0xA0] @ asc '' X is 42. '' @ [0xA0])),
           secondary_client = None\<rparr>
          (asc ''What is X?'') one_document) = Inr (asc ''X is 42.'', asc ''X is 42.'') \<and>
   snd (ResearchAgent_generate
          \<lparr>primary_client = Some (always_succeeds []), secondary_client = None\<rparr>
          (asc ''What is X?'') one_document)
     = Inr (asc ''I cannot answer this question.'', asc ''X is 42.'') \<and>
   snd (ResearchAgent_generate
          \<lparr>primary_client = Some returns_None, secondary_client = None\<rparr>
          (asc ''What is X?'') one_document)
     = Inr (asc ''I cannot answer this question.'', asc ''X is 42.'')"
proof -
  let ?t = "[0xA0] @ asc '' X is 42. '' @ [0xA0]"
  let ?a = "\<lparr>primary_client = Some (always_succeeds ?t), secondary_client = None\<rparr>"
  let ?b = "\<lparr>primary_client = Some (always_succeeds []), secondary_client = None\<rparr>"
  let ?c = "\<lparr>primary_client = Some returns_None, secondary_client = None\<rparr>"
  let ?p = "research_prompt_of (asc ''What is X?'') one_document"
  have ha: "snd (ResearchAgent_get_llm_response ?a ?p) = Inr (Some ?t)"
    by (simp add: ResearchAgent_get_llm_response_def always_succeeds_def)
  have hb: "snd (ResearchAgent_get_llm_response ?b ?p) = Inr (Some [])"
    by (simp add: ResearchAgent_get_llm_response_def always_succeeds_def)
  have hc: "snd (ResearchAgent_get_llm_response ?c ?p) = Inr None"
    by (simp add: ResearchAgent_get_llm_response_def returns_None_def)
  have s: "strip ?t = asc ''X is 42.''" by code_simp
  have n: "asc ''X is 42.'' \<noteq> []" by (simp add: asc_def)
  have j: "join (newline @ newline) (map page_content one_document) = asc ''X is 42.''"
    by (simp add: one_document_def)
  from ResearchAgent_generate_draft [of ?a "asc ''What is X?''" one_document] ha s n j
  have a: "snd (ResearchAgent_generate ?a (asc ''What is X?'') one_document)
             = Inr (asc ''X is 42.'', asc ''X is 42.'')"
    by auto
  from ResearchAgent_generate_draft [of ?b "asc ''What is X?''" one_document] hb j
  have b: "snd (ResearchAgent_generate ?b (asc ''What is X?'') one_document)
             = Inr (asc ''I cannot answer this question.'', asc ''X is 42.'')"
    by auto
  from ResearchAgent_generate_draft [of ?c "asc ''What is X?''" one_document] hc j
  have c: "snd (ResearchAgent_generate ?c (asc ''What is X?'') one_document)
             = Inr (asc ''I cannot answer this question.'', asc ''X is 42.'')"
    by auto
  from ha s n a b c show ?thesis by simp
qed

text \<open>
  A text of whitespace only is not empty, and its draft is the empty string.
\<close>

lemma ResearchAgent_generate_blank:
  "snd (ResearchAgent_generate
          \<lparr>primary_client = Some (always_succeeds (asc ''   '')), secondary_client = None\<rparr>
          (asc ''What is X?'') one_document) = Inr ([], asc ''X is 42.'')"
  by code_simp

end
